theory Spec2Isabelle
  imports Main
begin

section \<open>JavaScript values and objects, as far as CustomConsole uses them\<close>

text \<open>
  A JavaScript number is an integer-valued double or \<open>NaN\<close>. The counters and the
  group depth start at 0 and only move by 1, so they stay far inside the range where
  doubles are exact integers; \<open>NaN\<close> is kept because the increment operator yields it
  on a value that is not numeric.
\<close>

datatype jsnum = Num int | NaN

datatype jsval =
    JUndefined
  | JNull
  | JBool bool
  | JNumber jsnum
  | JString string
  | JObject nat

datatype js_error = RangeError | TypeError

text \<open>JavaScript truthiness (the conversion \<open>ToBoolean\<close>).\<close>

fun truthy :: "jsval \<Rightarrow> bool" where
  "truthy JUndefined = False"
| "truthy JNull = False"
| "truthy (JBool b) = b"
| "truthy (JNumber (Num n)) = (n \<noteq> 0)"
| "truthy (JNumber NaN) = False"
| "truthy (JString str) = (str \<noteq> [])"
| "truthy (JObject r) = True"

text \<open>
  \<open>_counters\<close> and \<open>_timers\<close> are created by the object literal \<open>{}\<close>, so they are
  ordinary objects whose prototype is \<open>Object.prototype\<close>. Reading \<open>obj[k]\<close> gives the
  object's own property when it has one, otherwise the property of that name that
  \<open>Object.prototype\<close> provides (a built-in function, or for \<open>__proto__\<close> the prototype
  object itself), otherwise \<open>undefined\<close>. An object is modelled by the map of its own
  properties; a read has three outcomes.
\<close>

datatype 'a property = Own 'a | Inherited | Absent

definition object_prototype_keys :: "string list" where
  "object_prototype_keys =
     [''constructor'', ''__defineGetter__'', ''__defineSetter__'', ''hasOwnProperty'',
      ''__lookupGetter__'', ''__lookupSetter__'', ''isPrototypeOf'',
      ''propertyIsEnumerable'', ''toString'', ''valueOf'', ''__proto__'',
      ''toLocaleString'']"

definition get_property :: "(string \<rightharpoonup> 'a) \<Rightarrow> string \<Rightarrow> 'a property" where
  "get_property obj k =
     (case obj k of
        Some v \<Rightarrow> Own v
      | None \<Rightarrow> if k \<in> set object_prototype_keys then Inherited else Absent)"

text \<open>
  The assignment \<open>obj[k] = v\<close> of a primitive value \<open>v\<close> creates or overwrites the own
  property \<open>k\<close>, also when \<open>k\<close> names an inherited built-in (those are writable data
  properties). The one exception is \<open>__proto__\<close>, an accessor of \<open>Object.prototype\<close>
  whose setter ignores every value that is neither an object nor null.
\<close>

definition set_property :: "(string \<rightharpoonup> 'a) \<Rightarrow> string \<Rightarrow> 'a \<Rightarrow> (string \<rightharpoonup> 'a)" where
  "set_property obj k v = (if k = ''__proto__'' then obj else obj(k \<mapsto> v))"

text \<open>Truthiness and \<open>ToNumber\<close> of what a read of \<open>_counters\<close> returns.\<close>

fun counter_truthy :: "jsnum property \<Rightarrow> bool" where
  "counter_truthy (Own (Num n)) = (n \<noteq> 0)"
| "counter_truthy (Own NaN) = False"
| "counter_truthy Inherited = True"
| "counter_truthy Absent = False"

fun to_number :: "jsnum property \<Rightarrow> jsnum" where
  "to_number (Own v) = v"
| "to_number Inherited = NaN"
| "to_number Absent = NaN"

fun increment :: "jsnum \<Rightarrow> jsnum" where
  "increment (Num n) = Num (n + 1)"
| "increment NaN = NaN"

text \<open>
  What a read of \<open>_timers\<close> returns: a \<open>Date\<close> (always truthy; modelled by its
  milliseconds since the epoch), an inherited built-in (truthy, but without a
  \<open>getTime\<close> method, so calling it raises a \<open>TypeError\<close>) or \<open>undefined\<close>.
\<close>

fun timer_truthy :: "int property \<Rightarrow> bool" where
  "timer_truthy (Own date) = True"
| "timer_truthy Inherited = True"
| "timer_truthy Absent = False"

fun getTime :: "int property \<Rightarrow> js_error + int" where
  "getTime (Own date) = Inr date"
| "getTime Inherited = Inl TypeError"
| "getTime Absent = Inl TypeError"

subsection \<open>Strings\<close>

definition digit_char :: "nat \<Rightarrow> char" where
  "digit_char n = ''0123456789'' ! n"

fun string_of_nat :: "nat \<Rightarrow> string" where
  "string_of_nat n =
     (if n < 10 then [digit_char n] else string_of_nat (n div 10) @ [digit_char (n mod 10)])"

text \<open>A number inside a template literal: decimal digits for an integer, \<open>NaN\<close> otherwise.\<close>

fun number_to_string :: "jsnum \<Rightarrow> string" where
  "number_to_string (Num n) =
     (if n < 0 then ''-'' @ string_of_nat (nat (- n)) else string_of_nat (nat n))"
| "number_to_string NaN = ''NaN''"

text \<open>
  \<open>String.prototype.repeat\<close> raises a \<open>RangeError\<close> on a negative count. (The
  limit that an engine puts on the length of a string is a limit of resources and is
  not part of the model.)
\<close>

definition repeat_str :: "string \<Rightarrow> int \<Rightarrow> js_error + string" where
  "repeat_str str n = (if n < 0 then Inl RangeError else Inr (concat (replicate (nat n) str)))"

definition and_then :: "js_error + 'a \<Rightarrow> ('a \<Rightarrow> js_error + 'b) \<Rightarrow> js_error + 'b" where
  "and_then r f = (case r of Inl e \<Rightarrow> Inl e | Inr x \<Rightarrow> f x)"

declare string_of_nat.simps [simp del]

section \<open>Collaborators of CustomConsole\<close>

text \<open>
  \<open>LogType\<close> is declared in \<open>./types\<close>; these are the twelve kinds that
  \<open>CustomConsole.ts\<close> passes to its formatter.
\<close>

datatype log_type =
    TAssert | TCount | TDebug | TDir | TDirxml | TError
  | TGroup | TGroupCollapsed | TInfo | TLog | TTime | TWarn

type_synonym inspect_options = "(string \<times> jsval) list"

text \<open>
  Functions of Node and of other packages that the class calls and that stay
  parameters of the model: \<open>util.format\<close> on a general argument list,
  \<open>util.inspect\<close>, \<open>chalk.bold\<close>, \<open>formatTime\<close> of jest-util, and the
  message that Node's \<open>assert\<close> generates when it is called without one.
\<close>

record env =
  util_format :: "jsval list \<Rightarrow> string"
  util_inspect :: "jsval \<Rightarrow> inspect_options \<Rightarrow> string"
  chalk_bold :: "string \<Rightarrow> string"
  formatTime :: "int \<Rightarrow> string"
  generated_message :: "jsval \<Rightarrow> string"

text \<open>
  \<open>util.format\<close> and \<open>util.formatWithOptions\<close> return a single string argument as
  it is, without reading any placeholder; every other argument list is formatted by
  the parameter.
\<close>

fun format :: "env \<Rightarrow> jsval list \<Rightarrow> string" where
  "format E [JString str] = str"
| "format E args = util_format E args"

text \<open>
  Node's \<open>assert(value, message)\<close>: nothing is thrown on a truthy value; otherwise
  the message itself is thrown when it is an \<open>Error\<close>, and an \<open>AssertionError\<close>
  carrying the message otherwise. The result is what \<open>toString()\<close> of the thrown
  error returns, or \<open>None\<close> when nothing is thrown.
\<close>

datatype assert_message = NoMessage | MessageString string | MessageError string

fun node_assert :: "env \<Rightarrow> jsval \<Rightarrow> assert_message \<Rightarrow> string option" where
  "node_assert E v m =
     (if truthy v then None
      else Some (case m of
          MessageError shown \<Rightarrow> shown
        | MessageString str \<Rightarrow> ''AssertionError [ERR_ASSERTION]: '' @ str
        | NoMessage \<Rightarrow> ''AssertionError [ERR_ASSERTION]: '' @ generated_message E v))"

text \<open>
  A stream records what reaches it: a request to clear the unterminated line, or a
  line of text.
\<close>

datatype sink_event = ClearLine | WriteLine string

text \<open>
  Modelled from the spec: \<open>clearLine\<close> of jest-util is not among the sources. The
  spec says that the stream is cleared of any in-progress partial line immediately
  before writing; the model records the request on the stream.
\<close>

definition clearLine :: "sink_event list \<Rightarrow> sink_event list" where
  "clearLine stream = stream @ [ClearLine]"

text \<open>
  \<open>super.log(text)\<close> and \<open>super.error(text)\<close> of Node's \<open>Console\<close>, called with one
  string: the text goes to the stream as one write, ended by a newline.
\<close>

definition console_write :: "sink_event list \<Rightarrow> string \<Rightarrow> sink_event list" where
  "console_write stream str = stream @ [WriteLine str]"

fun written_lines :: "sink_event list \<Rightarrow> string list" where
  "written_lines [] = []"
| "written_lines (ClearLine # evs) = written_lines evs"
| "written_lines (WriteLine str # evs) = str # written_lines evs"

section \<open>CustomConsole\<close>

record console_state =
  stdout :: "sink_event list"
  stderr :: "sink_event list"
  formatBuffer :: "log_type \<Rightarrow> string \<Rightarrow> string"
  counters :: "string \<rightharpoonup> jsnum"
  timers :: "string \<rightharpoonup> int"
  groupDepth :: int

definition CustomConsole ::
  "sink_event list \<Rightarrow> sink_event list \<Rightarrow> (log_type \<Rightarrow> string \<Rightarrow> string) option \<Rightarrow> console_state" where
  "CustomConsole out err hook =
     \<lparr> stdout = out,
       stderr = err,
       formatBuffer = (case hook of None \<Rightarrow> (\<lambda>type message. message) | Some f \<Rightarrow> f),
       counters = Map.empty,
       timers = Map.empty,
       groupDepth = 0 \<rparr>"

text \<open>
  The private methods \<open>_log\<close> and \<open>_logError\<close> (a name cannot start with an
  underscore here). The line is cleared first; then the argument of the write is
  built, where \<open>repeat\<close> can raise; then the text is written. The two streams are
  recorded separately.
\<close>

definition priv_log :: "log_type \<Rightarrow> string \<Rightarrow> console_state \<Rightarrow> js_error + console_state" where
  "priv_log type message s =
     (let cleared = clearLine (stdout s) in
      case repeat_str ''  '' (groupDepth s) of
        Inl e \<Rightarrow> Inl e
      | Inr indent \<Rightarrow>
          Inr (s\<lparr>stdout := console_write cleared (formatBuffer s type (indent @ message))\<rparr>))"

definition priv_logError :: "log_type \<Rightarrow> string \<Rightarrow> console_state \<Rightarrow> js_error + console_state" where
  "priv_logError type message s =
     (let cleared = clearLine (stderr s) in
      case repeat_str ''  '' (groupDepth s) of
        Inl e \<Rightarrow> Inl e
      | Inr indent \<Rightarrow>
          Inr (s\<lparr>stderr := console_write cleared (formatBuffer s type (indent @ message))\<rparr>))"

text \<open>An omitted label is the string \<open>default\<close>.\<close>

fun default_label :: "string option \<Rightarrow> string" where
  "default_label None = ''default''"
| "default_label (Some label) = label"

definition assert ::
  "env \<Rightarrow> jsval \<Rightarrow> assert_message \<Rightarrow> console_state \<Rightarrow> js_error + console_state" where
  "assert E v message s =
     (case node_assert E v message of
        None \<Rightarrow> Inr s
      | Some shown \<Rightarrow> priv_logError TAssert shown s)"

definition count :: "env \<Rightarrow> string option \<Rightarrow> console_state \<Rightarrow> js_error + console_state" where
  "count E label_opt s =
     (let label = default_label label_opt;
          c1 = (if \<not> counter_truthy (get_property (counters s) label)
                then set_property (counters s) label (Num 0)
                else counters s);
          n = increment (to_number (get_property c1 label));
          c2 = set_property c1 label n
      in priv_log TCount (format E [JString (label @ '': '' @ number_to_string n)])
           (s\<lparr>counters := c2\<rparr>))"

definition countReset :: "string option \<Rightarrow> console_state \<Rightarrow> console_state" where
  "countReset label_opt s =
     s\<lparr>counters := set_property (counters s) (default_label label_opt) (Num 0)\<rparr>"

definition debug :: "env \<Rightarrow> jsval \<Rightarrow> jsval list \<Rightarrow> console_state \<Rightarrow> js_error + console_state" where
  "debug E firstArg args s = priv_log TDebug (format E (firstArg # args)) s"

definition dir :: "env \<Rightarrow> jsval \<Rightarrow> inspect_options \<Rightarrow> console_state \<Rightarrow> js_error + console_state" where
  "dir E firstArg options s =
     (let representation = util_inspect E firstArg options
      in priv_log TDir (format E [JString representation]) s)"

definition dirxml :: "env \<Rightarrow> jsval \<Rightarrow> jsval list \<Rightarrow> console_state \<Rightarrow> js_error + console_state" where
  "dirxml E firstArg args s = priv_log TDirxml (format E (firstArg # args)) s"

definition error :: "env \<Rightarrow> jsval \<Rightarrow> jsval list \<Rightarrow> console_state \<Rightarrow> js_error + console_state" where
  "error E firstArg args s = priv_logError TError (format E (firstArg # args)) s"

text \<open>The optional title of a group: \<open>undefined\<close> when omitted, a string otherwise.\<close>

fun title_value :: "string option \<Rightarrow> jsval" where
  "title_value None = JUndefined"
| "title_value (Some title) = JString title"

definition group ::
  "env \<Rightarrow> string option \<Rightarrow> jsval list \<Rightarrow> console_state \<Rightarrow> js_error + console_state" where
  "group E title args s =
     (let s1 = s\<lparr>groupDepth := groupDepth s + 1\<rparr> in
      if truthy (title_value title) \<or> length args > 0
      then priv_log TGroup (chalk_bold E (format E (title_value title # args))) s1
      else Inr s1)"

definition groupCollapsed ::
  "env \<Rightarrow> string option \<Rightarrow> jsval list \<Rightarrow> console_state \<Rightarrow> js_error + console_state" where
  "groupCollapsed E title args s =
     (let s1 = s\<lparr>groupDepth := groupDepth s + 1\<rparr> in
      if truthy (title_value title) \<or> length args > 0
      then priv_log TGroupCollapsed (chalk_bold E (format E (title_value title # args))) s1
      else Inr s1)"

definition groupEnd :: "console_state \<Rightarrow> console_state" where
  "groupEnd s = (if groupDepth s > 0 then s\<lparr>groupDepth := groupDepth s - 1\<rparr> else s)"

definition info :: "env \<Rightarrow> jsval \<Rightarrow> jsval list \<Rightarrow> console_state \<Rightarrow> js_error + console_state" where
  "info E firstArg args s = priv_log TInfo (format E (firstArg # args)) s"

definition log ::
  "env \<Rightarrow> jsval \<Rightarrow> jsval list \<Rightarrow> console_state \<Rightarrow> js_error + console_state" where
  "log E firstArg args s = priv_log TLog (format E (firstArg # args)) s"

text \<open>
  The time methods read the clock with \<open>new Date()\<close>; the instant read is the
  parameter \<open>now\<close>, in milliseconds. In \<open>time\<close> the assignment is reached only when
  the read of the label is falsy, which excludes every name of \<open>Object.prototype\<close>.
\<close>

definition time :: "string option \<Rightarrow> int \<Rightarrow> console_state \<Rightarrow> console_state" where
  "time label_opt now s =
     (let label = default_label label_opt in
      if timer_truthy (get_property (timers s) label) then s
      else s\<lparr>timers := (timers s)(label \<mapsto> now)\<rparr>)"

definition timeEnd ::
  "env \<Rightarrow> string option \<Rightarrow> int \<Rightarrow> console_state \<Rightarrow> js_error + console_state" where
  "timeEnd E label_opt now s =
     (let label = default_label label_opt;
          startTime = get_property (timers s) label
      in if timer_truthy startTime
         then (let endTime = now in
               case getTime startTime of
                 Inl e \<Rightarrow> Inl e
               | Inr started \<Rightarrow>
                   and_then
                     (priv_log TTime
                        (format E [JString (label @ '': '' @ formatTime E (endTime - started))]) s)
                     (\<lambda>s1. Inr (s1\<lparr>timers := (timers s1)(label := None)\<rparr>)))
         else Inr s)"

definition timeLog ::
  "env \<Rightarrow> string option \<Rightarrow> jsval list \<Rightarrow> int \<Rightarrow> console_state \<Rightarrow> js_error + console_state" where
  "timeLog E label_opt data now s =
     (let label = default_label label_opt;
          startTime = get_property (timers s) label
      in if timer_truthy startTime
         then (let endTime = now in
               case getTime startTime of
                 Inl e \<Rightarrow> Inl e
               | Inr started \<Rightarrow>
                   priv_log TTime
                     (format E (JString (label @ '': '' @ formatTime E (endTime - started)) # data)) s)
         else Inr s)"

definition warn :: "env \<Rightarrow> jsval \<Rightarrow> jsval list \<Rightarrow> console_state \<Rightarrow> js_error + console_state" where
  "warn E firstArg args s = priv_logError TWarn (format E (firstArg # args)) s"

definition getBuffer :: "console_state \<Rightarrow> jsval" where
  "getBuffer s = JUndefined"

section \<open>Call sequences\<close>

text \<open>
  An environment for concrete runs: no styling (\<open>chalk.bold\<close> is the identity), the
  elapsed time shown as its milliseconds.
\<close>

definition plain_env :: env where
  "plain_env =
     \<lparr> util_format = (\<lambda>args. []),
       util_inspect = (\<lambda>v options. []),
       chalk_bold = (\<lambda>str. str),
       formatTime = (\<lambda>ms. number_to_string (Num ms) @ '' ms''),
       generated_message = (\<lambda>v. []) \<rparr>"

text \<open>
  The scenario of the spec: a logger with the identity format hook, then
  \<open>group("outer")\<close>, \<open>log("hello")\<close>, \<open>group("inner")\<close>, \<open>log("world")\<close>,
  \<open>groupEnd()\<close>, \<open>groupEnd()\<close>, \<open>log("done")\<close>.
\<close>

definition scenario :: "env \<Rightarrow> js_error + console_state" where
  "scenario E =
     and_then (group E (Some ''outer'') [] (CustomConsole [] [] (Some (\<lambda>type message. message))))
       (\<lambda>s1. and_then (log E (JString ''hello'') [] s1)
       (\<lambda>s2. and_then (group E (Some ''inner'') [] s2)
       (\<lambda>s3. and_then (log E (JString ''world'') [] s3)
       (\<lambda>s4. log E (JString ''done'') [] (groupEnd (groupEnd s4))))))"

definition stdout_lines :: "js_error + console_state \<Rightarrow> string list option" where
  "stdout_lines r = (case r of Inl e \<Rightarrow> None | Inr s \<Rightarrow> Some (written_lines (stdout s)))"

text \<open>A sequence of \<open>group\<close> and \<open>groupEnd\<close> calls, run in order.\<close>

datatype group_call = CallGroup "string option" "jsval list" | CallGroupEnd

fun run_groups :: "env \<Rightarrow> group_call list \<Rightarrow> console_state \<Rightarrow> js_error + console_state" where
  "run_groups E [] s = Inr s"
| "run_groups E (CallGroup title args # calls) s = and_then (group E title args s) (run_groups E calls)"
| "run_groups E (CallGroupEnd # calls) s = run_groups E calls (groupEnd s)"

definition depth_after :: "js_error + console_state \<Rightarrow> int option" where
  "depth_after r = (case r of Inl e \<Rightarrow> None | Inr s \<Rightarrow> Some (groupDepth s))"

fun count_group :: "group_call list \<Rightarrow> int" where
  "count_group [] = 0"
| "count_group (CallGroup title args # calls) = 1 + count_group calls"
| "count_group (CallGroupEnd # calls) = count_group calls"

fun count_groupEnd :: "group_call list \<Rightarrow> int" where
  "count_groupEnd [] = 0"
| "count_groupEnd (CallGroup title args # calls) = count_groupEnd calls"
| "count_groupEnd (CallGroupEnd # calls) = 1 + count_groupEnd calls"

text \<open>
  The number of \<open>groupEnd\<close> calls of a sequence that are made while the depth is 0,
  when the sequence starts at depth \<open>d\<close>.
\<close>

fun unmatched_groupEnd :: "int \<Rightarrow> group_call list \<Rightarrow> int" where
  "unmatched_groupEnd d [] = 0"
| "unmatched_groupEnd d (CallGroup title args # calls) = unmatched_groupEnd (d + 1) calls"
| "unmatched_groupEnd d (CallGroupEnd # calls) =
     (if d > 0 then unmatched_groupEnd (d - 1) calls else 1 + unmatched_groupEnd d calls)"

text \<open>The indentation in front of a message: two spaces for each level of depth.\<close>

definition indentation :: "console_state \<Rightarrow> string" where
  "indentation s = concat (replicate (nat (groupDepth s)) ''  '')"

section \<open>Shared facts\<close>

lemma priv_log_writes:
  "0 \<le> groupDepth s \<Longrightarrow>
   priv_log type message s =
     Inr (s\<lparr>stdout := stdout s @ [ClearLine, WriteLine (formatBuffer s type (indentation s @ message))]\<rparr>)"
  by (simp add: priv_log_def repeat_str_def clearLine_def console_write_def indentation_def)

lemma priv_logError_writes:
  "0 \<le> groupDepth s \<Longrightarrow>
   priv_logError type message s =
     Inr (s\<lparr>stderr := stderr s @ [ClearLine, WriteLine (formatBuffer s type (indentation s @ message))]\<rparr>)"
  by (simp add: priv_logError_def repeat_str_def clearLine_def console_write_def indentation_def)

lemma indentation_simps:
  "indentation (s\<lparr>stdout := out\<rparr>) = indentation s"
  "indentation (s\<lparr>stderr := err\<rparr>) = indentation s"
  "indentation (s\<lparr>counters := c\<rparr>) = indentation s"
  "indentation (s\<lparr>timers := t\<rparr>) = indentation s"
  by (simp_all add: indentation_def)

lemma get_property_own: "obj k = Some v \<Longrightarrow> get_property obj k = Own v"
  by (simp add: get_property_def)

lemma fresh_fields:
  "stdout (CustomConsole out err hook) = out"
  "stderr (CustomConsole out err hook) = err"
  "counters (CustomConsole out err hook) = Map.empty"
  "timers (CustomConsole out err hook) = Map.empty"
  "groupDepth (CustomConsole out err hook) = 0"
  "formatBuffer (CustomConsole out err None) = (\<lambda>type message. message)"
  "formatBuffer (CustomConsole out err (Some f)) = f"
  by (simp_all add: CustomConsole_def)

lemma plain_env_fields:
  "formatTime plain_env ms = number_to_string (Num ms) @ '' ms''"
  "chalk_bold plain_env str = str"
  by (simp_all add: plain_env_def)

lemma shown_numbers:
  "number_to_string (Num 1) = ''1''"
  "number_to_string (Num 100) = ''100''"
  "number_to_string (Num 1229) = ''1229''"
  by (simp_all add: string_of_nat.simps digit_char_def)

text \<open>A logger on which \<open>time("t")\<close> was called at instant 5 and nothing else.\<close>

lemma started_timer:
  "timers (time (Some ''t'') 5 (CustomConsole [] [] None)) ''t'' = Some 5"
  "groupDepth (time (Some ''t'') 5 (CustomConsole [] [] None)) = 0"
  "stdout (time (Some ''t'') 5 (CustomConsole [] [] None)) = []"
  "formatBuffer (time (Some ''t'') 5 (CustomConsole [] [] None)) = (\<lambda>type message. message)"
  "indentation (time (Some ''t'') 5 (CustomConsole [] [] None)) = []"
  by (simp_all add: time_def get_property_def object_prototype_keys_def fresh_fields indentation_def)

text \<open>
  No method but \<open>group\<close>, \<open>groupCollapsed\<close> and \<open>groupEnd\<close> changes the depth, and
  none of the three makes a depth negative that was not: every state reachable from a
  fresh logger has a depth of at least 0.
\<close>

lemma depth_is_kept:
  "priv_log type message s = Inr s' \<Longrightarrow> groupDepth s' = groupDepth s"
  "priv_logError type message s = Inr s' \<Longrightarrow> groupDepth s' = groupDepth s"
  "assert E v m s = Inr s' \<Longrightarrow> groupDepth s' = groupDepth s"
  "count E label s = Inr s' \<Longrightarrow> groupDepth s' = groupDepth s"
  "groupDepth (countReset label s) = groupDepth s"
  "groupDepth (time label now s) = groupDepth s"
  "timeEnd E label now s = Inr s' \<Longrightarrow> groupDepth s' = groupDepth s"
  "timeLog E label data now s = Inr s' \<Longrightarrow> groupDepth s' = groupDepth s"
  by (auto simp add: priv_log_def priv_logError_def assert_def count_def countReset_def time_def
      timeEnd_def timeLog_def and_then_def Let_def
      split: sum.splits option.splits if_splits)

lemma depth_stays_nonnegative:
  "0 \<le> groupDepth s \<Longrightarrow> group E title args s = Inr s' \<Longrightarrow> 0 \<le> groupDepth s'"
  "0 \<le> groupDepth s \<Longrightarrow> groupCollapsed E title args s = Inr s' \<Longrightarrow> 0 \<le> groupDepth s'"
  "0 \<le> groupDepth s \<Longrightarrow> 0 \<le> groupDepth (groupEnd s)"
  by (auto simp add: group_def groupCollapsed_def groupEnd_def priv_log_def Let_def
      split: sum.splits if_splits)

section \<open>The example scenario\<close>

text \<open>
  The scenario step by step: the state after each call that writes, until the last
  \<open>groupEnd\<close>. The depth is 1 when \<open>outer\<close> and \<open>hello\<close> are written, 2 when \<open>inner\<close>
  and \<open>world\<close> are written, and 0 again for \<open>done\<close>.
\<close>

lemma scenario_steps:
  "scenario E =
     log E (JString ''done'') []
       ((CustomConsole [] [] (Some (\<lambda>type message. message)))
          \<lparr>stdout :=
              [ClearLine, WriteLine (''  '' @ chalk_bold E ''outer''),
               ClearLine, WriteLine ''  hello'',
               ClearLine, WriteLine (''    '' @ chalk_bold E ''inner''),
               ClearLine, WriteLine ''    world'']\<rparr>)"
  by (simp add: scenario_def and_then_def group_def log_def groupEnd_def
      priv_log_def repeat_str_def clearLine_def console_write_def CustomConsole_def eval_nat_numeral)

text \<open>
  Claim C1, as the code has it. In the scenario the lines written to stdout are the
  title \<open>outer\<close> behind two spaces, \<open>hello\<close> behind two spaces, the title \<open>inner\<close>
  behind four spaces, \<open>world\<close> behind four spaces, and \<open>done\<close> with no indentation
  (the titles carry the styling of \<open>chalk.bold\<close>). Every line is indented by two
  spaces for each level of the depth at the moment it is written, and a group's title
  is written after the depth has been incremented for that group, so a title and the
  lines logged inside its group share one indentation.
\<close>

theorem scenario_lines:
  "stdout_lines (scenario E) =
     Some [''  '' @ chalk_bold E ''outer'', ''  hello'', ''    '' @ chalk_bold E ''inner'',
           ''    world'', ''done'']"
  by (simp add: scenario_steps log_def priv_log_writes indentation_def fresh_fields
      stdout_lines_def)

text \<open>
  The lines that claim C1 lists (\<open>hello\<close> behind four spaces, \<open>inner\<close> behind six,
  \<open>world\<close> behind eight) are not the lines of the scenario.
\<close>

theorem scenario_lines_counterexample:
  "stdout_lines (scenario plain_env) \<noteq>
     Some [''  outer'', ''    hello'', ''      inner'', ''        world'', ''done'']"
  by (simp add: scenario_steps log_def priv_log_writes indentation_def fresh_fields
      stdout_lines_def plain_env_fields)

section \<open>The depth of groups\<close>

lemma group_depth:
  "0 \<le> groupDepth s \<Longrightarrow> \<exists>s1. group E title args s = Inr s1 \<and> groupDepth s1 = groupDepth s + 1"
  by (simp add: group_def Let_def priv_log_writes)

lemma groupEnd_depth:
  "groupDepth (groupEnd s) = (if groupDepth s > 0 then groupDepth s - 1 else groupDepth s)"
  by (simp add: groupEnd_def)

lemma unmatched_groupEnd_nonneg: "0 \<le> unmatched_groupEnd d calls"
  by (induction d calls rule: unmatched_groupEnd.induct) auto

lemma run_groups_depth:
  "0 \<le> groupDepth s \<Longrightarrow>
   \<exists>s'. run_groups E calls s = Inr s' \<and>
        groupDepth s' =
          groupDepth s + count_group calls - count_groupEnd calls
            + unmatched_groupEnd (groupDepth s) calls \<and>
        0 \<le> groupDepth s'"
proof (induction calls arbitrary: s)
  case Nil
  then show ?case by simp
next
  case (Cons c calls)
  show ?case
  proof (cases c)
    case (CallGroup title args)
    from group_depth [OF Cons.prems] obtain s1
      where s1: "group E title args s = Inr s1" "groupDepth s1 = groupDepth s + 1"
      by blast
    with Cons.prems have "0 \<le> groupDepth s1" by simp
    from Cons.IH [OF this] obtain s'
      where "run_groups E calls s1 = Inr s'"
        "groupDepth s' = groupDepth s1 + count_group calls - count_groupEnd calls
            + unmatched_groupEnd (groupDepth s1) calls"
        "0 \<le> groupDepth s'"
      by blast
    with s1 CallGroup show ?thesis by (simp add: and_then_def)
  next
    case CallGroupEnd
    from Cons.prems have "0 \<le> groupDepth (groupEnd s)" by (simp add: groupEnd_depth)
    from Cons.IH [OF this] obtain s'
      where "run_groups E calls (groupEnd s) = Inr s'"
        "groupDepth s' = groupDepth (groupEnd s) + count_group calls - count_groupEnd calls
            + unmatched_groupEnd (groupDepth (groupEnd s)) calls"
        "0 \<le> groupDepth s'"
      by blast
    with Cons.prems CallGroupEnd show ?thesis by (simp add: groupEnd_depth)
  qed
qed

text \<open>
  Claim C2, as the code has it. Every finite sequence of \<open>group\<close> and \<open>groupEnd\<close>
  calls on a fresh logger runs to its end without an exception, and afterwards the
  depth is the number of \<open>group\<close> calls minus the number of \<open>groupEnd\<close> calls plus
  the number of \<open>groupEnd\<close> calls that were made while the depth was 0. So the depth
  is at least \<open>max(0, group calls - groupEnd calls)\<close>, and it equals that number when
  no \<open>groupEnd\<close> was made at depth 0. After every prefix of the sequence the depth is
  not negative, and \<open>groupEnd\<close> at depth 0 leaves the whole state unchanged.
\<close>

theorem group_depth_after_calls:
  "\<exists>s'. run_groups E calls (CustomConsole out err hook) = Inr s' \<and>
        groupDepth s' = count_group calls - count_groupEnd calls + unmatched_groupEnd 0 calls \<and>
        max 0 (count_group calls - count_groupEnd calls) \<le> groupDepth s' \<and>
        (unmatched_groupEnd 0 calls = 0 \<longrightarrow>
           groupDepth s' = max 0 (count_group calls - count_groupEnd calls)) \<and>
        (\<forall>n. \<exists>sn. run_groups E (take n calls) (CustomConsole out err hook) = Inr sn \<and>
                   0 \<le> groupDepth sn) \<and>
        (\<forall>s. groupDepth s = 0 \<longrightarrow> groupEnd s = s)"
proof -
  let ?fresh = "CustomConsole out err hook"
  have start: "0 \<le> groupDepth ?fresh" by (simp add: fresh_fields)
  from run_groups_depth [OF start, of E calls] obtain s'
    where run: "run_groups E calls ?fresh = Inr s'"
      and depth: "groupDepth s' = count_group calls - count_groupEnd calls + unmatched_groupEnd 0 calls"
      and nonneg: "0 \<le> groupDepth s'"
    by (auto simp: fresh_fields)
  have lower: "max 0 (count_group calls - count_groupEnd calls) \<le> groupDepth s'"
    using depth nonneg unmatched_groupEnd_nonneg [of 0 calls] by simp
  have exact: "unmatched_groupEnd 0 calls = 0 \<longrightarrow>
      groupDepth s' = max 0 (count_group calls - count_groupEnd calls)"
    using depth nonneg by simp
  have prefixes: "\<forall>n. \<exists>sn. run_groups E (take n calls) ?fresh = Inr sn \<and> 0 \<le> groupDepth sn"
    using run_groups_depth [OF start] by blast
  have noop: "\<forall>s. groupDepth s = 0 \<longrightarrow> groupEnd s = s"
    by (simp add: groupEnd_def)
  from run depth lower exact prefixes noop show ?thesis by blast
qed

text \<open>
  The theorem at \<open>group("a")\<close>, \<open>group()\<close>, \<open>groupEnd()\<close>: no \<open>groupEnd\<close> is made at
  depth 0, and the depth afterwards is \<open>max(0, 2 - 1)\<close>.
\<close>

theorem group_depth_after_calls_witness:
  "depth_after (run_groups plain_env [CallGroup (Some ''a'') [], CallGroup None [], CallGroupEnd]
      (CustomConsole [] [] None)) = Some (max 0 (2 - 1)) \<and>
   unmatched_groupEnd 0 [CallGroup (Some ''a'') [], CallGroup None [], CallGroupEnd] = 0 \<and>
   groupDepth (CustomConsole [] [] None) = 0 \<and>
   groupEnd (CustomConsole [] [] None) = CustomConsole [] [] None"
proof -
  let ?calls = "[CallGroup (Some ''a'') [], CallGroup None [], CallGroupEnd]"
  let ?fresh = "CustomConsole [] [] None"
  have balanced: "unmatched_groupEnd 0 ?calls = 0" by simp
  have zero: "groupDepth ?fresh = 0" by (simp add: fresh_fields)
  from group_depth_after_calls [of plain_env ?calls "[]" "[]" None] obtain s'
    where run: "run_groups plain_env ?calls ?fresh = Inr s'"
      and exact: "unmatched_groupEnd 0 ?calls = 0 \<longrightarrow>
          groupDepth s' = max 0 (count_group ?calls - count_groupEnd ?calls)"
      and noop: "\<forall>s. groupDepth s = 0 \<longrightarrow> groupEnd s = s"
    by blast
  from exact balanced have "groupDepth s' = max 0 (2 - 1)" by simp
  with run have "depth_after (run_groups plain_env ?calls ?fresh) = Some (max 0 (2 - 1))"
    by (simp add: depth_after_def)
  moreover from noop zero have "groupEnd ?fresh = ?fresh" by blast
  ultimately show ?thesis using balanced zero by blast
qed

text \<open>
  Claim C2 as stated fails at \<open>groupEnd()\<close>, \<open>group()\<close> on a fresh logger: one call
  of each, so \<open>max(0, 1 - 1) = 0\<close>, but the \<open>groupEnd\<close> came first and did nothing, and
  the depth afterwards is 1.
\<close>

theorem group_depth_counterexample:
  "depth_after (run_groups plain_env [CallGroupEnd, CallGroup None []] (CustomConsole [] [] None))
     \<noteq> Some (max 0 (count_group [CallGroupEnd, CallGroup None []]
                      - count_groupEnd [CallGroupEnd, CallGroup None []]))"
  by (simp add: depth_after_def group_def groupEnd_def CustomConsole_def and_then_def)

section \<open>assert\<close>

text \<open>
  Claim C3. On a logger whose depth is not negative, \<open>assert(false, "boom")\<close> returns
  without an exception; stdout and everything else but stderr stay as they were, and
  stderr receives one clear request and one line, the format hook applied to the
  indentation followed by \<open>AssertionError [ERR_ASSERTION]: boom\<close>. With the default
  hook, the identity, the line written ends with \<open>boom\<close>. An \<open>assert\<close> whose first
  argument is truthy returns the state as it was, so it writes to neither stream.
\<close>

theorem assert_false_boom:
  "0 \<le> groupDepth s \<Longrightarrow>
   assert E (JBool False) (MessageString ''boom'') s =
     Inr (s\<lparr>stderr := stderr s @
            [ClearLine,
             WriteLine (formatBuffer s TAssert
               (indentation s @ ''AssertionError [ERR_ASSERTION]: '' @ ''boom''))]\<rparr>) \<and>
   (formatBuffer s = (\<lambda>type message. message) \<longrightarrow>
      (\<exists>before. assert E (JBool False) (MessageString ''boom'') s =
         Inr (s\<lparr>stderr := stderr s @ [ClearLine, WriteLine (before @ ''boom'')]\<rparr>))) \<and>
   (truthy v \<longrightarrow> assert E v message s = Inr s)"
proof -
  assume depth: "0 \<le> groupDepth s"
  let ?prefix = "indentation s @ ''AssertionError [ERR_ASSERTION]: ''"
  have falsy: "assert E (JBool False) (MessageString ''boom'') s =
     Inr (s\<lparr>stderr := stderr s @
            [ClearLine,
             WriteLine (formatBuffer s TAssert
               (indentation s @ ''AssertionError [ERR_ASSERTION]: '' @ ''boom''))]\<rparr>)"
    using depth by (simp add: assert_def priv_logError_writes)
  have shown: "formatBuffer s = (\<lambda>type message. message) \<longrightarrow>
      (\<exists>before. assert E (JBool False) (MessageString ''boom'') s =
         Inr (s\<lparr>stderr := stderr s @ [ClearLine, WriteLine (before @ ''boom'')]\<rparr>))"
  proof
    assume hook: "formatBuffer s = (\<lambda>type message. message)"
    have "assert E (JBool False) (MessageString ''boom'') s =
       Inr (s\<lparr>stderr := stderr s @ [ClearLine, WriteLine (?prefix @ ''boom'')]\<rparr>)"
      using falsy hook by simp
    then show "\<exists>before. assert E (JBool False) (MessageString ''boom'') s =
         Inr (s\<lparr>stderr := stderr s @ [ClearLine, WriteLine (before @ ''boom'')]\<rparr>)"
      by (rule exI [of _ ?prefix])
  qed
  have quiet: "truthy v \<longrightarrow> assert E v message s = Inr s"
    by (simp add: assert_def)
  show ?thesis
  proof (intro conjI)
    show "assert E (JBool False) (MessageString ''boom'') s =
     Inr (s\<lparr>stderr := stderr s @
            [ClearLine,
             WriteLine (formatBuffer s TAssert
               (indentation s @ ''AssertionError [ERR_ASSERTION]: '' @ ''boom''))]\<rparr>)"
      by (rule falsy)
    show "formatBuffer s = (\<lambda>type message. message) \<longrightarrow>
      (\<exists>before. assert E (JBool False) (MessageString ''boom'') s =
         Inr (s\<lparr>stderr := stderr s @ [ClearLine, WriteLine (before @ ''boom'')]\<rparr>))"
      by (rule shown)
    show "truthy v \<longrightarrow> assert E v message s = Inr s"
      by (rule quiet)
  qed
qed

text \<open>
  The theorem on a fresh logger with the default hook: the line is
  \<open>AssertionError [ERR_ASSERTION]: boom\<close>, and \<open>assert(true, "boom")\<close> changes nothing.
\<close>

theorem assert_false_boom_witness:
  "0 \<le> groupDepth (CustomConsole [] [] None) \<and>
   formatBuffer (CustomConsole [] [] None) = (\<lambda>type message. message) \<and>
   truthy (JBool True) \<and>
   assert plain_env (JBool False) (MessageString ''boom'') (CustomConsole [] [] None) =
     Inr ((CustomConsole [] [] None)
            \<lparr>stderr := [ClearLine, WriteLine ''AssertionError [ERR_ASSERTION]: boom'']\<rparr>) \<and>
   assert plain_env (JBool True) (MessageString ''boom'') (CustomConsole [] [] None) =
     Inr (CustomConsole [] [] None)"
proof -
  let ?fresh = "CustomConsole [] [] None"
  have depth: "0 \<le> groupDepth ?fresh" by (simp add: fresh_fields)
  have hook: "formatBuffer ?fresh = (\<lambda>type message. message)" by (simp add: fresh_fields)
  have yes: "truthy (JBool True)" by simp
  have plain: "indentation ?fresh = []" "stderr ?fresh = []"
    "formatBuffer ?fresh TAssert = (\<lambda>message. message)"
    by (simp_all add: indentation_def fresh_fields)
  note inst = assert_false_boom [OF depth, of plain_env "JBool True" "MessageString ''boom''"]
  have falsy: "assert plain_env (JBool False) (MessageString ''boom'') ?fresh =
     Inr (?fresh\<lparr>stderr := [ClearLine, WriteLine ''AssertionError [ERR_ASSERTION]: boom'']\<rparr>)"
    using inst [THEN conjunct1] by (simp add: plain)
  have quiet: "assert plain_env (JBool True) (MessageString ''boom'') ?fresh = Inr ?fresh"
    using inst [THEN conjunct2, THEN conjunct2] yes by (rule mp)
  show ?thesis
  proof (intro conjI)
    show "0 \<le> groupDepth ?fresh" by (rule depth)
    show "formatBuffer ?fresh = (\<lambda>type message. message)" by (rule hook)
    show "truthy (JBool True)" by (rule yes)
    show "assert plain_env (JBool False) (MessageString ''boom'') ?fresh =
     Inr (?fresh\<lparr>stderr := [ClearLine, WriteLine ''AssertionError [ERR_ASSERTION]: boom'']\<rparr>)"
      by (rule falsy)
    show "assert plain_env (JBool True) (MessageString ''boom'') ?fresh = Inr ?fresh"
      by (rule quiet)
  qed
qed

section \<open>Timers\<close>

text \<open>
  Claim C4. While a timer for the label \<open>L\<close> is running, started at the instant
  \<open>started\<close>, a further \<open>time(L)\<close> returns the state as it was, so the stored instant
  stays; a later \<open>timeEnd(L)\<close> at the instant \<open>ended\<close> then logs the label with the
  formatted time \<open>ended - started\<close> and removes the timer. The stored instant is the
  one of the first call: on a state where the label reads as \<open>undefined\<close>, \<open>time(L)\<close>
  stores the instant it is called at.
\<close>

theorem time_twice_keeps_start:
  "timers s L = Some started \<Longrightarrow> 0 \<le> groupDepth s \<Longrightarrow>
   time (Some L) later s = s \<and>
   timeEnd E (Some L) ended (time (Some L) later s) =
     Inr (s\<lparr>stdout := stdout s @
            [ClearLine,
             WriteLine (formatBuffer s TTime
               (indentation s @ L @ '': '' @ formatTime E (ended - started)))],
          timers := (timers s)(L := None)\<rparr>) \<and>
   (get_property (timers s0) L = Absent \<longrightarrow>
      timers (time (Some L) started s0) L = Some started)"
proof -
  assume running: "timers s L = Some started" and depth: "0 \<le> groupDepth s"
  have noop: "time (Some L) later s = s"
    using running by (simp add: time_def get_property_own)
  have report: "timeEnd E (Some L) ended s =
     Inr (s\<lparr>stdout := stdout s @
            [ClearLine,
             WriteLine (formatBuffer s TTime
               (indentation s @ L @ '': '' @ formatTime E (ended - started)))],
          timers := (timers s)(L := None)\<rparr>)"
    using running depth
    by (simp add: timeEnd_def get_property_own priv_log_writes and_then_def)
  have first: "get_property (timers s0) L = Absent \<longrightarrow>
      timers (time (Some L) started s0) L = Some started"
    by (simp add: time_def)
  from noop report first show ?thesis by simp
qed

text \<open>
  The theorem at \<open>time("t")\<close> at instant 5 on a fresh logger, \<open>time("t")\<close> again at
  instant 7 and \<open>timeEnd("t")\<close> at instant 1234: the time reported is 1229.
\<close>

theorem time_twice_keeps_start_witness:
  "timers (time (Some ''t'') 5 (CustomConsole [] [] None)) ''t'' = Some 5 \<and>
   0 \<le> groupDepth (time (Some ''t'') 5 (CustomConsole [] [] None)) \<and>
   get_property (timers (CustomConsole [] [] None)) ''t'' = Absent \<and>
   stdout_lines (timeEnd plain_env (Some ''t'') 1234
      (time (Some ''t'') 7 (time (Some ''t'') 5 (CustomConsole [] [] None)))) = Some [''t: 1229 ms'']"
proof -
  let ?fresh = "CustomConsole [] [] None"
  let ?s = "time (Some ''t'') 5 ?fresh"
  have running: "timers ?s ''t'' = Some 5" by (rule started_timer)
  have depth: "0 \<le> groupDepth ?s" by (simp add: started_timer)
  have absent: "get_property (timers ?fresh) ''t'' = Absent"
    by (simp add: get_property_def object_prototype_keys_def fresh_fields)
  have "timeEnd plain_env (Some ''t'') 1234 (time (Some ''t'') 7 ?s) =
     Inr (?s\<lparr>stdout := [ClearLine, WriteLine ''t: 1229 ms''], timers := (timers ?s)(''t'' := None)\<rparr>)"
    using time_twice_keeps_start [OF running depth, THEN conjunct2, THEN conjunct1, of plain_env 1234 7]
    by (simp add: started_timer plain_env_fields shown_numbers del: number_to_string.simps)
  then have "stdout_lines (timeEnd plain_env (Some ''t'') 1234 (time (Some ''t'') 7 ?s)) =
     Some [''t: 1229 ms'']"
    by (simp add: stdout_lines_def)
  with running depth absent show ?thesis by simp
qed

text \<open>
  Claim C5. While a timer for the label \<open>L\<close> is running, \<open>timeLog(L, ...data)\<close> logs
  the label with the formatted elapsed time (and the data) and changes nothing but
  stdout: the timers, the counters, the depth and stderr are as before. A
  \<open>timeEnd(L)\<close> after it finds the timer, reports the time elapsed since the original
  start and removes the timer.
\<close>

theorem timeLog_keeps_timer:
  "timers s L = Some started \<Longrightarrow> 0 \<le> groupDepth s \<Longrightarrow>
   timeLog E (Some L) data now s =
     Inr (s\<lparr>stdout := stdout s @
            [ClearLine,
             WriteLine (formatBuffer s TTime
               (indentation s @ format E (JString (L @ '': '' @ formatTime E (now - started)) # data)))]\<rparr>) \<and>
   (\<exists>s1. timeLog E (Some L) data now s = Inr s1 \<and>
         timers s1 = timers s \<and> counters s1 = counters s \<and> groupDepth s1 = groupDepth s \<and>
         stderr s1 = stderr s \<and>
         timeEnd E (Some L) ended s1 =
           Inr (s1\<lparr>stdout := stdout s1 @
                  [ClearLine,
                   WriteLine (formatBuffer s TTime
                     (indentation s @ L @ '': '' @ formatTime E (ended - started)))],
                timers := (timers s)(L := None)\<rparr>))"
proof -
  assume running: "timers s L = Some started" and depth: "0 \<le> groupDepth s"
  let ?s1 = "s\<lparr>stdout := stdout s @
            [ClearLine,
             WriteLine (formatBuffer s TTime
               (indentation s @ format E (JString (L @ '': '' @ formatTime E (now - started)) # data)))]\<rparr>"
  have logged: "timeLog E (Some L) data now s = Inr ?s1"
    using running depth by (simp add: timeLog_def get_property_own priv_log_writes)
  have ended: "timeEnd E (Some L) ended ?s1 =
           Inr (?s1\<lparr>stdout := stdout ?s1 @
                  [ClearLine,
                   WriteLine (formatBuffer s TTime
                     (indentation s @ L @ '': '' @ formatTime E (ended - started)))],
                timers := (timers s)(L := None)\<rparr>)"
    using running depth
    by (simp add: timeEnd_def get_property_own priv_log_writes and_then_def indentation_simps)
  have frame: "timers ?s1 = timers s" "counters ?s1 = counters s" "groupDepth ?s1 = groupDepth s"
    "stderr ?s1 = stderr s"
    by simp_all
  from logged ended frame show ?thesis by blast
qed

text \<open>
  The theorem at \<open>time("t")\<close> at instant 5 on a fresh logger, \<open>timeLog("t")\<close> at
  instant 105 and \<open>timeEnd("t")\<close> at instant 1234: the times reported are 100 and 1229.
\<close>

theorem timeLog_keeps_timer_witness:
  "timers (time (Some ''t'') 5 (CustomConsole [] [] None)) ''t'' = Some 5 \<and>
   0 \<le> groupDepth (time (Some ''t'') 5 (CustomConsole [] [] None)) \<and>
   stdout_lines (and_then
      (timeLog plain_env (Some ''t'') [] 105 (time (Some ''t'') 5 (CustomConsole [] [] None)))
      (timeEnd plain_env (Some ''t'') 1234)) = Some [''t: 100 ms'', ''t: 1229 ms'']"
proof -
  let ?fresh = "CustomConsole [] [] None"
  let ?s = "time (Some ''t'') 5 ?fresh"
  have running: "timers ?s ''t'' = Some 5" by (rule started_timer)
  have depth: "0 \<le> groupDepth ?s" by (simp add: started_timer)
  note inst = timeLog_keeps_timer [OF running depth, of plain_env "[]" 105 1234]
  have logged: "timeLog plain_env (Some ''t'') [] 105 ?s =
     Inr (?s\<lparr>stdout := [ClearLine, WriteLine ''t: 100 ms'']\<rparr>)"
    using inst [THEN conjunct1]
    by (simp add: started_timer plain_env_fields shown_numbers del: number_to_string.simps)
  from inst [THEN conjunct2] obtain s1
    where s1: "timeLog plain_env (Some ''t'') [] 105 ?s = Inr s1"
      and ended: "timeEnd plain_env (Some ''t'') 1234 s1 =
           Inr (s1\<lparr>stdout := stdout s1 @
                  [ClearLine,
                   WriteLine (formatBuffer ?s TTime
                     (indentation ?s @ ''t'' @ '': '' @ formatTime plain_env (1234 - 5)))],
                timers := (timers ?s)(''t'' := None)\<rparr>)"
    by blast
  from s1 logged have s1_eq: "s1 = ?s\<lparr>stdout := [ClearLine, WriteLine ''t: 100 ms'']\<rparr>"
    by simp
  have "stdout_lines (and_then (timeLog plain_env (Some ''t'') [] 105 ?s)
      (timeEnd plain_env (Some ''t'') 1234)) = Some [''t: 100 ms'', ''t: 1229 ms'']"
    using ended
    by (simp add: logged s1_eq and_then_def stdout_lines_def started_timer plain_env_fields
        shown_numbers del: number_to_string.simps)
  with running depth show ?thesis by simp
qed

text \<open>
  \<open>timeEnd\<close> on a label that reads as \<open>undefined\<close> (no timer of that name, and not a
  name of \<open>Object.prototype\<close>) returns the state as it was.
\<close>

lemma timeEnd_absent:
  "get_property (timers s) L = Absent \<Longrightarrow> timeEnd E (Some L) now s = Inr s"
  by (simp add: timeEnd_def)

text \<open>
  On a label that names a property of \<open>Object.prototype\<close> and has no timer,
  \<open>timeEnd\<close> and \<open>timeLog\<close> raise a \<open>TypeError\<close>, and \<open>time\<close> starts no timer.
\<close>

lemma inherited_label:
  assumes "L \<in> set object_prototype_keys" and "timers s L = None"
  shows "timeEnd E (Some L) now s = Inl TypeError"
    and "timeLog E (Some L) data now s = Inl TypeError"
    and "time (Some L) now s = s"
  using assms by (simp_all add: timeEnd_def timeLog_def time_def get_property_def)

text \<open>
  Claim C6 does not hold for the label \<open>toString\<close>, for which no timer is running on
  a fresh logger: the read \<open>this._timers["toString"]\<close> returns the function inherited
  from \<open>Object.prototype\<close>, which is truthy, and \<open>startTime.getTime()\<close> raises a
  \<open>TypeError\<close> that \<open>timeEnd\<close> does not catch.
\<close>

theorem timeEnd_inherited_label_throws:
  "timeEnd E (Some ''toString'') now (CustomConsole out err hook) = Inl TypeError"
  by (simp add: timeEnd_def get_property_def object_prototype_keys_def fresh_fields)

section \<open>Counters\<close>

text \<open>
  For every label but \<open>__proto__\<close>, \<open>countReset(L)\<close> followed by \<open>count(L)\<close> stores 1
  and logs the label followed by \<open>: 1\<close>.
\<close>

lemma count_after_countReset:
  "L \<noteq> ''__proto__'' \<Longrightarrow> 0 \<le> groupDepth s \<Longrightarrow>
   count E (Some L) (countReset (Some L) s) =
     Inr (s\<lparr>counters := (counters s)(L \<mapsto> Num 1),
            stdout := stdout s @
              [ClearLine, WriteLine (formatBuffer s TCount (indentation s @ L @ '': 1''))]\<rparr>)"
  by (simp add: count_def countReset_def set_property_def get_property_def priv_log_writes
      indentation_simps shown_numbers Let_def del: number_to_string.simps)

text \<open>
  Claim C7 does not hold for the label \<open>__proto__\<close>: the assignment of 0 in
  \<open>countReset\<close> is swallowed by the setter of \<open>Object.prototype\<close>, the read in
  \<open>count\<close> returns the prototype object, which is truthy, the increment yields
  \<open>NaN\<close>, and the line logged is \<open>__proto__: NaN\<close>.
\<close>

theorem countReset_count_proto:
  "stdout_lines
     (count E (Some ''__proto__'') (countReset (Some ''__proto__'') (CustomConsole [] [] None)))
     = Some [''__proto__: NaN'']"
  by (simp add: count_def countReset_def set_property_def get_property_def object_prototype_keys_def
      priv_log_def repeat_str_def clearLine_def console_write_def stdout_lines_def fresh_fields)

text \<open>
  For a label that is not a name of \<open>Object.prototype\<close> and whose stored value, if
  any, is a non-negative integer, \<open>count\<close> stores and logs an integer that is at
  least 1.
\<close>

lemma count_step:
  assumes label: "L \<notin> set object_prototype_keys"
    and stored: "\<And>v. counters s L = Some v \<Longrightarrow> \<exists>n\<ge>0. v = Num n"
    and depth: "0 \<le> groupDepth s"
  shows "\<exists>n\<ge>1. count E (Some L) s =
     Inr (s\<lparr>counters := (counters s)(L \<mapsto> Num n),
            stdout := stdout s @
              [ClearLine,
               WriteLine (formatBuffer s TCount
                 (indentation s @ L @ '': '' @ number_to_string (Num n)))]\<rparr>)"
proof -
  from label have proto: "L \<noteq> ''__proto__''" by (auto simp: object_prototype_keys_def)
  show ?thesis
  proof (cases "counters s L")
    case None
    with label proto depth have "count E (Some L) s =
     Inr (s\<lparr>counters := (counters s)(L \<mapsto> Num 1),
            stdout := stdout s @
              [ClearLine,
               WriteLine (formatBuffer s TCount
                 (indentation s @ L @ '': '' @ number_to_string (Num 1)))]\<rparr>)"
      by (simp add: count_def set_property_def get_property_def priv_log_writes indentation_simps
          Let_def del: number_to_string.simps)
    then show ?thesis by (intro exI [of _ 1]) simp
  next
    case (Some v)
    with stored obtain n where n: "0 \<le> n" "v = Num n" by blast
    with Some proto depth have "count E (Some L) s =
     Inr (s\<lparr>counters := (counters s)(L \<mapsto> Num (n + 1)),
            stdout := stdout s @
              [ClearLine,
               WriteLine (formatBuffer s TCount
                 (indentation s @ L @ '': '' @ number_to_string (Num (n + 1))))]\<rparr>)"
      by (cases "n = 0")
        (simp_all add: count_def set_property_def get_property_def priv_log_writes indentation_simps
          Let_def del: number_to_string.simps)
    with n show ?thesis by (intro exI [of _ "n + 1"]) simp
  qed
qed

text \<open>
  Claim C10 does not hold for the label \<open>toString\<close> on a fresh logger: the read
  \<open>this._counters["toString"]\<close> returns the inherited function, which is truthy, so
  the counter is not set to 0; the increment yields \<open>NaN\<close>, which is stored as the
  counter and logged as \<open>toString: NaN\<close>.
\<close>

theorem count_inherited_label_NaN:
  "count E (Some ''toString'') (CustomConsole [] [] None) =
     Inr ((CustomConsole [] [] None)
            \<lparr>counters := [''toString'' \<mapsto> NaN],
             stdout := [ClearLine, WriteLine ''toString: NaN'']\<rparr>)"
  by (simp add: count_def set_property_def get_property_def object_prototype_keys_def
      priv_log_def repeat_str_def clearLine_def console_write_def fresh_fields)

section \<open>The formatting rule\<close>

text \<open>
  Claim C8. On a logger whose depth is not negative, \<open>_log\<close> and \<open>_logError\<close> first
  ask their stream (stdout, stderr) to clear the unterminated line and then write one
  line: the format hook applied to the kind and to the two-space string repeated
  \<open>groupDepth\<close> times followed by the message. A logger constructed without a hook
  formats with the identity, one constructed with a hook uses it. Every writing method
  writes through one of the two with its own kind: \<open>debug\<close>, \<open>dir\<close>, \<open>dirxml\<close>,
  \<open>info\<close>, \<open>log\<close>, \<open>count\<close>, \<open>timeLog\<close>, \<open>timeEnd\<close> and the titles of \<open>group\<close> and
  \<open>groupCollapsed\<close> (at the depth already incremented) through \<open>_log\<close>; \<open>error\<close>,
  \<open>warn\<close> and a failed \<open>assert\<close> through \<open>_logError\<close>.
\<close>

theorem formatting_rule:
  "0 \<le> groupDepth s \<Longrightarrow>
   priv_log type message s =
     Inr (s\<lparr>stdout := stdout s @
            [ClearLine,
             WriteLine (formatBuffer s type
               (concat (replicate (nat (groupDepth s)) ''  '') @ message))]\<rparr>) \<and>
   priv_logError type message s =
     Inr (s\<lparr>stderr := stderr s @
            [ClearLine,
             WriteLine (formatBuffer s type
               (concat (replicate (nat (groupDepth s)) ''  '') @ message))]\<rparr>) \<and>
   formatBuffer (CustomConsole out err None) type message = message \<and>
   formatBuffer (CustomConsole out err (Some hook)) = hook \<and>
   debug E firstArg args s = priv_log TDebug (format E (firstArg # args)) s \<and>
   dir E firstArg options s = priv_log TDir (util_inspect E firstArg options) s \<and>
   dirxml E firstArg args s = priv_log TDirxml (format E (firstArg # args)) s \<and>
   info E firstArg args s = priv_log TInfo (format E (firstArg # args)) s \<and>
   log E firstArg args s = priv_log TLog (format E (firstArg # args)) s \<and>
   error E firstArg args s = priv_logError TError (format E (firstArg # args)) s \<and>
   warn E firstArg args s = priv_logError TWarn (format E (firstArg # args)) s \<and>
   (\<exists>n c. count E label s =
      priv_log TCount (default_label label @ '': '' @ number_to_string n) (s\<lparr>counters := c\<rparr>)) \<and>
   (\<not> truthy v \<longrightarrow>
      (\<exists>shown. assert E v m s = priv_logError TAssert shown s)) \<and>
   (truthy (title_value title) \<or> args \<noteq> [] \<longrightarrow>
      group E title args s =
        priv_log TGroup (chalk_bold E (format E (title_value title # args)))
          (s\<lparr>groupDepth := groupDepth s + 1\<rparr>) \<and>
      groupCollapsed E title args s =
        priv_log TGroupCollapsed (chalk_bold E (format E (title_value title # args)))
          (s\<lparr>groupDepth := groupDepth s + 1\<rparr>)) \<and>
   (timers s L = Some started \<longrightarrow>
      timeLog E (Some L) data now s =
        priv_log TTime (format E (JString (L @ '': '' @ formatTime E (now - started)) # data)) s \<and>
      timeEnd E (Some L) now s =
        and_then (priv_log TTime (L @ '': '' @ formatTime E (now - started)) s)
          (\<lambda>s1. Inr (s1\<lparr>timers := (timers s1)(L := None)\<rparr>)))"
proof -
  assume depth: "0 \<le> groupDepth s"
  have counted: "\<exists>n c. count E label s =
      priv_log TCount (default_label label @ '': '' @ number_to_string n) (s\<lparr>counters := c\<rparr>)"
    unfolding count_def Let_def format.simps by (intro exI) (rule refl)
  have asserted: "\<not> truthy v \<longrightarrow>
      (\<exists>shown. assert E v m s = priv_logError TAssert shown s)"
    by (auto simp add: assert_def)
  have grouped: "truthy (title_value title) \<or> args \<noteq> [] \<longrightarrow>
      group E title args s =
        priv_log TGroup (chalk_bold E (format E (title_value title # args)))
          (s\<lparr>groupDepth := groupDepth s + 1\<rparr>) \<and>
      groupCollapsed E title args s =
        priv_log TGroupCollapsed (chalk_bold E (format E (title_value title # args)))
          (s\<lparr>groupDepth := groupDepth s + 1\<rparr>)"
    by (simp add: group_def groupCollapsed_def)
  have timed: "timers s L = Some started \<longrightarrow>
      timeLog E (Some L) data now s =
        priv_log TTime (format E (JString (L @ '': '' @ formatTime E (now - started)) # data)) s \<and>
      timeEnd E (Some L) now s =
        and_then (priv_log TTime (L @ '': '' @ formatTime E (now - started)) s)
          (\<lambda>s1. Inr (s1\<lparr>timers := (timers s1)(L := None)\<rparr>))"
    by (simp add: timeLog_def timeEnd_def get_property_own)
  show ?thesis
  proof (intro conjI)
    show "priv_log type message s =
     Inr (s\<lparr>stdout := stdout s @
            [ClearLine,
             WriteLine (formatBuffer s type
               (concat (replicate (nat (groupDepth s)) ''  '') @ message))]\<rparr>)"
      using priv_log_writes [OF depth] by (simp add: indentation_def)
    show "priv_logError type message s =
     Inr (s\<lparr>stderr := stderr s @
            [ClearLine,
             WriteLine (formatBuffer s type
               (concat (replicate (nat (groupDepth s)) ''  '') @ message))]\<rparr>)"
      using priv_logError_writes [OF depth] by (simp add: indentation_def)
    show "formatBuffer (CustomConsole out err None) type message = message"
      by (simp add: fresh_fields)
    show "formatBuffer (CustomConsole out err (Some hook)) = hook"
      by (simp add: fresh_fields)
    show "debug E firstArg args s = priv_log TDebug (format E (firstArg # args)) s"
      by (simp add: debug_def)
    show "dir E firstArg options s = priv_log TDir (util_inspect E firstArg options) s"
      by (simp add: dir_def)
    show "dirxml E firstArg args s = priv_log TDirxml (format E (firstArg # args)) s"
      by (simp add: dirxml_def)
    show "info E firstArg args s = priv_log TInfo (format E (firstArg # args)) s"
      by (simp add: info_def)
    show "log E firstArg args s = priv_log TLog (format E (firstArg # args)) s"
      by (simp add: log_def)
    show "error E firstArg args s = priv_logError TError (format E (firstArg # args)) s"
      by (simp add: error_def)
    show "warn E firstArg args s = priv_logError TWarn (format E (firstArg # args)) s"
      by (simp add: warn_def)
    show "\<exists>n c. count E label s =
      priv_log TCount (default_label label @ '': '' @ number_to_string n) (s\<lparr>counters := c\<rparr>)"
      by (rule counted)
    show "\<not> truthy v \<longrightarrow>
      (\<exists>shown. assert E v m s = priv_logError TAssert shown s)"
      by (rule asserted)
    show "truthy (title_value title) \<or> args \<noteq> [] \<longrightarrow>
      group E title args s =
        priv_log TGroup (chalk_bold E (format E (title_value title # args)))
          (s\<lparr>groupDepth := groupDepth s + 1\<rparr>) \<and>
      groupCollapsed E title args s =
        priv_log TGroupCollapsed (chalk_bold E (format E (title_value title # args)))
          (s\<lparr>groupDepth := groupDepth s + 1\<rparr>)"
      by (rule grouped)
    show "timers s L = Some started \<longrightarrow>
      timeLog E (Some L) data now s =
        priv_log TTime (format E (JString (L @ '': '' @ formatTime E (now - started)) # data)) s \<and>
      timeEnd E (Some L) now s =
        and_then (priv_log TTime (L @ '': '' @ formatTime E (now - started)) s)
          (\<lambda>s1. Inr (s1\<lparr>timers := (timers s1)(L := None)\<rparr>))"
      by (rule timed)
  qed
qed

text \<open>
  The theorem on a logger at depth 2 with a timer \<open>t\<close> started at instant 5: \<open>_log\<close>
  writes behind four spaces, the title of \<open>group("a")\<close> behind six, and \<open>timeLog("t")\<close>
  at instant 105 reports 100 behind four spaces.
\<close>

theorem formatting_rule_witness:
  "0 \<le> groupDepth ((time (Some ''t'') 5 (CustomConsole [] [] None))\<lparr>groupDepth := 2\<rparr>) \<and>
   \<not> truthy (JBool False) \<and>
   truthy (title_value (Some ''a'')) \<and>
   timers ((time (Some ''t'') 5 (CustomConsole [] [] None))\<lparr>groupDepth := 2\<rparr>) ''t'' = Some 5 \<and>
   stdout_lines (priv_log TLog ''hi''
     ((time (Some ''t'') 5 (CustomConsole [] [] None))\<lparr>groupDepth := 2\<rparr>)) = Some [''    hi''] \<and>
   stdout_lines (group plain_env (Some ''a'') []
     ((time (Some ''t'') 5 (CustomConsole [] [] None))\<lparr>groupDepth := 2\<rparr>)) = Some [''      a''] \<and>
   stdout_lines (timeLog plain_env (Some ''t'') [] 105
     ((time (Some ''t'') 5 (CustomConsole [] [] None))\<lparr>groupDepth := 2\<rparr>)) = Some [''    t: 100 ms'']"
proof -
  let ?s = "(time (Some ''t'') 5 (CustomConsole [] [] None))\<lparr>groupDepth := 2\<rparr>"
  have depth: "0 \<le> groupDepth ?s" by simp
  have falsy: "\<not> truthy (JBool False)" by simp
  have titled: "truthy (title_value (Some ''a''))" by simp
  have running: "timers ?s ''t'' = Some 5" by (simp add: started_timer)
  have indented: "indentation ?s = ''    ''"
    "indentation ((time (Some ''t'') 5 (CustomConsole [] [] None))\<lparr>groupDepth := 3\<rparr>) = ''      ''"
    by (simp_all add: indentation_def eval_nat_numeral)
  note inst = formatting_rule [OF depth, where E = plain_env and title = "Some ''a''" and args = "[]"
      and L = "''t''" and started = 5 and data = "[]" and now = 105 and v = "JBool False"]
  have logged: "priv_log TLog ''hi'' ?s = Inr (?s\<lparr>stdout := [ClearLine, WriteLine ''    hi'']\<rparr>)"
    using inst [THEN conjunct1, of TLog "''hi''"]
    by (simp add: started_timer eval_nat_numeral)
  have grouped: "group plain_env (Some ''a'') [] ?s =
      priv_log TGroup (chalk_bold plain_env (format plain_env [JString ''a'']))
        (?s\<lparr>groupDepth := groupDepth ?s + 1\<rparr>)"
    using inst [THEN conjunct2, THEN conjunct2, THEN conjunct2, THEN conjunct2, THEN conjunct2, THEN conjunct2, THEN conjunct2, THEN conjunct2, THEN conjunct2, THEN conjunct2, THEN conjunct2, THEN conjunct2, THEN conjunct2, THEN conjunct1] titled by simp
  have timed: "timeLog plain_env (Some ''t'') [] 105 ?s =
      priv_log TTime (format plain_env [JString (''t'' @ '': '' @ formatTime plain_env (105 - 5))]) ?s"
    using inst [THEN conjunct2, THEN conjunct2, THEN conjunct2, THEN conjunct2, THEN conjunct2, THEN conjunct2, THEN conjunct2, THEN conjunct2, THEN conjunct2, THEN conjunct2, THEN conjunct2, THEN conjunct2, THEN conjunct2, THEN conjunct2] running by simp
  have "stdout_lines (priv_log TLog ''hi'' ?s) = Some [''    hi'']"
    by (simp add: logged stdout_lines_def)
  moreover have "stdout_lines (group plain_env (Some ''a'') [] ?s) = Some [''      a'']"
    by (simp add: grouped priv_log_writes indented started_timer plain_env_fields stdout_lines_def)
  moreover have "stdout_lines (timeLog plain_env (Some ''t'') [] 105 ?s) = Some [''    t: 100 ms'']"
    by (simp add: timed priv_log_writes indented started_timer plain_env_fields shown_numbers
        stdout_lines_def del: number_to_string.simps)
  ultimately show ?thesis using depth falsy titled running by simp
qed

section \<open>Groups with an empty title\<close>

text \<open>
  Claim C9. \<open>group("")\<close>, an empty title and no further argument, increments the
  depth and writes nothing: the state afterwards differs from the state before in
  \<open>groupDepth\<close> only, so both streams are as they were. The same holds for
  \<open>groupCollapsed("")\<close>.
\<close>

theorem group_empty_title:
  "group E (Some []) [] s = Inr (s\<lparr>groupDepth := groupDepth s + 1\<rparr>) \<and>
   groupCollapsed E (Some []) [] s = Inr (s\<lparr>groupDepth := groupDepth s + 1\<rparr>)"
  by (simp add: group_def groupCollapsed_def)

end
